theory Spec2Isabelle
  imports Complex_Main
begin

section \<open>Python values at the boundary of \<^verbatim>\<open>src/app.py\<close>\<close>

text \<open>
  Request and response bodies are byte strings; a \<^typ>\<open>char\<close> is one byte, so
  \<^verbatim>\<open>b"Hello World !"\<close> is \<open>''Hello World !''\<close>.
\<close>

type_synonym bytes = string

text \<open>
  A Python \<^verbatim>\<open>float\<close> is an IEEE 754 double: a finite value, an infinity or NaN. Finite
  values are embedded in the reals. The comparisons follow IEEE 754 as Python does: every
  ordered comparison with NaN is \<^verbatim>\<open>False\<close>.
\<close>

datatype pyfloat = Finite real | PosInf | NegInf | NaN

fun float_lt :: "pyfloat \<Rightarrow> real \<Rightarrow> bool" where
  "float_lt (Finite x) t = (x < t)"
| "float_lt NegInf t = True"
| "float_lt PosInf t = False"
| "float_lt NaN t = False"

fun float_gt :: "pyfloat \<Rightarrow> real \<Rightarrow> bool" where
  "float_gt (Finite x) t = (x > t)"
| "float_gt PosInf t = True"
| "float_gt NegInf t = False"
| "float_gt NaN t = False"

fun float_ge :: "pyfloat \<Rightarrow> real \<Rightarrow> bool" where
  "float_ge (Finite x) t = (x \<ge> t)"
| "float_ge PosInf t = True"
| "float_ge NegInf t = False"
| "float_ge NaN t = False"

text \<open>
  A float literal of the source denotes the double nearest to the decimal it spells
  (\<^verbatim>\<open>float.as_integer_ratio\<close> gives the fractions). \<^verbatim>\<open>2.5\<close> and \<^verbatim>\<open>0.5\<close> are doubles
  themselves and are written as they are;
  \<^verbatim>\<open>0.61\<close> denotes a double a little below 0.61 and \<^verbatim>\<open>1.05\<close> one a little above 1.05.
\<close>

definition double_0_61 :: real where
  "double_0_61 = 5494391545392005 / 9007199254740992"

definition double_1_05 :: real where
  "double_1_05 = 4728779608739021 / 4503599627370496"

text \<open>
  An exception object: whether it is an instance of \<^verbatim>\<open>Exception\<close> (what
  \<^verbatim>\<open>except Exception\<close> catches; \<^verbatim>\<open>KeyboardInterrupt\<close>, \<^verbatim>\<open>SystemExit\<close> and
  \<^verbatim>\<open>asyncio.CancelledError\<close> are not), and its \<^verbatim>\<open>str()\<close>. The exceptions the interpreter
  itself raises in the handlers follow, with the messages CPython gives them.
\<close>

datatype pyexc = PyExc (is_Exception: bool) (description: string)

definition IndexError :: pyexc where
  "IndexError = PyExc True ''list index out of range''"

definition quoted :: "string \<Rightarrow> string" where
  "quoted s = CHR 0x27 # s @ [CHR 0x27]"

definition TypeError_subscript :: pyexc where
  "TypeError_subscript = PyExc True (quoted ''float'' @ '' object is not subscriptable'')"

definition TypeError_compare :: "string \<Rightarrow> pyexc" where
  "TypeError_compare operator =
     PyExc True (quoted operator @ '' not supported between instances of '' @ quoted ''list''
                 @ '' and '' @ quoted ''float'')"

text \<open>
  What \<^verbatim>\<open>.tolist()\<close> can give: a number, or a list of such values (nested when the
  tensor has more than one axis).
\<close>

datatype pyval = PyNum pyfloat | PyList "pyval list"

text \<open>\<^verbatim>\<open>v[i]\<close> for a literal index \<open>i \<ge> 0\<close>: out of range raises, a number is not subscriptable.\<close>

fun getitem :: "pyval \<Rightarrow> nat \<Rightarrow> pyexc + pyval" where
  "getitem (PyList xs) i = (if i < length xs then Inr (xs ! i) else Inl IndexError)"
| "getitem (PyNum x) i = Inl TypeError_subscript"

text \<open>\<^verbatim>\<open>v < t\<close> and \<^verbatim>\<open>v > t\<close> against a float literal: a list operand raises \<^verbatim>\<open>TypeError\<close>.\<close>

fun py_lt :: "pyval \<Rightarrow> real \<Rightarrow> pyexc + bool" where
  "py_lt (PyNum x) t = Inr (float_lt x t)"
| "py_lt (PyList xs) t = Inl (TypeError_compare ''<'')"

fun py_gt :: "pyval \<Rightarrow> real \<Rightarrow> pyexc + bool" where
  "py_gt (PyNum x) t = Inr (float_gt x t)"
| "py_gt (PyList xs) t = Inl (TypeError_compare ''>'')"

text \<open>What a handler hands back to the framework: a string, or (in \<^verbatim>\<open>/backup\<close>) an exception object.\<close>

datatype pyobj = PyStr string | PyExcObj pyexc

text \<open>Sequencing of statements that may raise: the first exception ends the block.\<close>

definition then_do :: "pyexc + 'a \<Rightarrow> ('a \<Rightarrow> pyexc + 'b) \<Rightarrow> pyexc + 'b" where
  "then_do m k = (case m of Inl exc \<Rightarrow> Inl exc | Inr v \<Rightarrow> k v)"


section \<open>Requests, responses and the collaborators\<close>

text \<open>
  The part of a Starlette \<^verbatim>\<open>Request\<close> the handlers read: the header list (names in lower
  case, as the server delivers them; a name may repeat) and the body.
\<close>

record request =
  req_headers :: "(string \<times> string) list"
  req_client :: string
    \<comment> \<open>\<^verbatim>\<open>get_remote_address(request)\<close>, the key of the limiter\<close>
  req_body :: bytes

text \<open>\<^verbatim>\<open>request.headers.get(key, default)\<close>: the first header of that name, else the default.\<close>

definition headers_get :: "(string \<times> string) list \<Rightarrow> string \<Rightarrow> string \<Rightarrow> string" where
  "headers_get hs key dflt = (case map_of hs key of Some v \<Rightarrow> v | None \<Rightarrow> dflt)"

text \<open>
  \<^verbatim>\<open>Response(content=body, media_type=mt)\<close> of Starlette, which is what \<^verbatim>\<open>check_request\<close>
  returns; the class is not part of \<^verbatim>\<open>src/\<close>. The response keeps the bytes as its body and
  \<open>mt\<close> as its media type, and \<^verbatim>\<open>init_headers\<close> sends the content-type header: \<open>mt\<close>, with
  \<^verbatim>\<open>"; charset=utf-8"\<close> appended when \<^verbatim>\<open>mt.startswith("text/")\<close> and
  \<^verbatim>\<open>"charset=" not in mt.lower()\<close>. Only the letters A to Z matter to that test.
\<close>

definition ascii_lower :: "char \<Rightarrow> char" where
  "ascii_lower c =
     (case map_of (zip ''ABCDEFGHIJKLMNOPQRSTUVWXYZ'' ''abcdefghijklmnopqrstuvwxyz'') c of
        Some l \<Rightarrow> l
      | None \<Rightarrow> c)"

definition startswith :: "string \<Rightarrow> string \<Rightarrow> bool" where
  "startswith s prefix = (take (length prefix) s = prefix)"

fun contains :: "string \<Rightarrow> string \<Rightarrow> bool" where
  "contains [] needle = (needle = [])"
| "contains (c # cs) needle = (startswith (c # cs) needle \<or> contains cs needle)"

record response =
  content :: bytes
  media_type :: string
  content_type :: string

definition Response :: "bytes \<Rightarrow> string \<Rightarrow> response" where
  "Response body mt =
     \<lparr>content = body,
      media_type = mt,
      content_type =
        (if startswith mt ''text/'' \<and> \<not> contains (map ascii_lower mt) ''charset=''
         then mt @ ''; charset=utf-8''
         else mt)\<rparr>"

text \<open>
  The modules \<^verbatim>\<open>PIL\<close>, \<^verbatim>\<open>cnn\<close> and \<^verbatim>\<open>llm\<close> are not part of \<^verbatim>\<open>src/\<close>; the handlers are
  verified for every behaviour of theirs. Each field gives, for one request, the value of
  the source expression named beside it, or the exception its evaluation raises.
\<close>

record 'img collaborators =
  image_open :: "bytes \<Rightarrow> pyexc + 'img"
    \<comment> \<open>\<^verbatim>\<open>Image.open(BytesIO(body)).convert("RGB")\<close>\<close>
  cnn_get_emotion :: "'img \<Rightarrow> pyexc + pyval"
    \<comment> \<open>\<^verbatim>\<open>(cnn.get_emotion(pilimage))[0].tolist()\<close>\<close>
  get_recommendation :: "string \<Rightarrow> pyexc + string"
    \<comment> \<open>\<^verbatim>\<open>llm.get_recommendation(label)\<close>\<close>


section \<open>The handlers\<close>

subsection \<open>\<^verbatim>\<open>check_request\<close> (\<^verbatim>\<open>POST /test\<close>, lines 103 to 121)\<close>

definition check_request :: "request \<Rightarrow> response" where
  "check_request request =
     Response (req_body request)
       (headers_get (req_headers request) ''content-type'' ''application/octet-stream'')"

subsection \<open>\<^verbatim>\<open>analyze_drift\<close> (\<^verbatim>\<open>POST /predict\<close>, lines 126 to 155)\<close>

text \<open>The \<^verbatim>\<open>if\<close>/\<^verbatim>\<open>elif\<close> chain of lines 144 to 153.\<close>

definition predict_cascade ::
    "'img collaborators \<Rightarrow> pyval \<Rightarrow> pyval \<Rightarrow> pyval \<Rightarrow> pyval \<Rightarrow> pyexc + string" where
  "predict_cascade env cnn_boredom cnn_confusion cnn_engagement cnn_frustration =
     then_do (py_lt cnn_engagement 2.5) (\<lambda>t1.
       if t1 then get_recommendation env ''disengagement''
       else then_do (py_gt cnn_frustration 0.5) (\<lambda>t2.
         if t2 then get_recommendation env ''frustration''
         else then_do (py_gt cnn_confusion double_0_61) (\<lambda>t3.
           if t3 then get_recommendation env ''confusion''
           else then_do (py_gt cnn_boredom double_1_05) (\<lambda>t4.
             if t4 then get_recommendation env ''boredom''
             else Inr ''Good news, no cognitive drift recognized!''))))"

text \<open>The body of the \<^verbatim>\<open>try\<close> block, lines 136 to 153.\<close>

definition predict_try :: "'img collaborators \<Rightarrow> bytes \<Rightarrow> pyexc + string" where
  "predict_try env body =
     then_do (image_open env body) (\<lambda>pilimage.
     then_do (cnn_get_emotion env pilimage) (\<lambda>cnn_predict.
     then_do (getitem cnn_predict 0) (\<lambda>cnn_boredom.
     then_do (getitem cnn_predict 1) (\<lambda>cnn_confusion.
     then_do (getitem cnn_predict 2) (\<lambda>cnn_engagement.
     then_do (getitem cnn_predict 3) (\<lambda>cnn_frustration.
       predict_cascade env cnn_boredom cnn_confusion cnn_engagement cnn_frustration))))))"

text \<open>
  The \<^verbatim>\<open>except Exception as exc\<close> clause of lines 154 and 155: an \<^verbatim>\<open>Exception\<close> becomes the
  returned f-string, anything else keeps propagating (\<open>Inl\<close>).
\<close>

definition predict_except :: "pyexc + string \<Rightarrow> pyexc + pyobj" where
  "predict_except r =
     (case r of
        Inr s \<Rightarrow> Inr (PyStr s)
      | Inl exc \<Rightarrow>
          if is_Exception exc
          then Inr (PyStr (''Error in the process! Please use /backup endpoint for now. Displaying error message:\<newline>''
                           @ description exc))
          else Inl exc)"

definition analyze_drift :: "'img collaborators \<Rightarrow> request \<Rightarrow> pyexc + pyobj" where
  "analyze_drift env request = predict_except (predict_try env (req_body request))"

subsection \<open>\<^verbatim>\<open>backup_analysis\<close> (\<^verbatim>\<open>POST /backup\<close>, lines 159 to 182)\<close>

text \<open>The \<^verbatim>\<open>if\<close>/\<^verbatim>\<open>elif\<close> chain of lines 171 to 180.\<close>

definition backup_cascade :: "pyval \<Rightarrow> pyval \<Rightarrow> pyval \<Rightarrow> pyval \<Rightarrow> pyexc + string" where
  "backup_cascade cnn_boredom cnn_confusion cnn_engagement cnn_frustration =
     then_do (py_lt cnn_engagement 2.5) (\<lambda>t1.
       if t1 then Inr ''Disengagement: careful, you're losing focus!''
       else then_do (py_gt cnn_frustration 0.5) (\<lambda>t2.
         if t2 then Inr ''Frustration: maybe it's time for a pause?''
         else then_do (py_gt cnn_confusion double_0_61) (\<lambda>t3.
           if t3 then Inr ''Confusion: ask someone else's opinion on what you do not understand?''
           else then_do (py_gt cnn_boredom double_1_05) (\<lambda>t4.
             if t4 then Inr ''Boredom: a short walk to get back into things!''
             else Inr ''Good news: no cognitive drift recognized!''))))"

text \<open>The body of the \<^verbatim>\<open>try\<close> block, lines 163 to 180.\<close>

definition backup_try :: "'img collaborators \<Rightarrow> bytes \<Rightarrow> pyexc + string" where
  "backup_try env body =
     then_do (image_open env body) (\<lambda>pilimage.
     then_do (cnn_get_emotion env pilimage) (\<lambda>cnn_predict.
     then_do (getitem cnn_predict 0) (\<lambda>cnn_boredom.
     then_do (getitem cnn_predict 1) (\<lambda>cnn_confusion.
     then_do (getitem cnn_predict 2) (\<lambda>cnn_engagement.
     then_do (getitem cnn_predict 3) (\<lambda>cnn_frustration.
       backup_cascade cnn_boredom cnn_confusion cnn_engagement cnn_frustration))))))"

text \<open>
  The \<^verbatim>\<open>except Exception as exc\<close> clause of lines 181 and 182: \<^verbatim>\<open>return exc\<close> hands back
  the exception object itself.
\<close>

definition backup_except :: "pyexc + string \<Rightarrow> pyexc + pyobj" where
  "backup_except r =
     (case r of
        Inr s \<Rightarrow> Inr (PyStr s)
      | Inl exc \<Rightarrow> if is_Exception exc then Inr (PyExcObj exc) else Inl exc)"

definition backup_analysis :: "'img collaborators \<Rightarrow> request \<Rightarrow> pyexc + pyobj" where
  "backup_analysis env request = backup_except (backup_try env (req_body request))"


section \<open>The cascade as a policy on labels\<close>

text \<open>
  The Drift Policy Engine in the words of the specification (section 4.3): a ScoreVector in
  the order boredom, confusion, engagement, frustration is reduced to one label by an
  ordered cascade, first match wins, with the thresholds 2.5, 0.5, 0.61 and 1.05 as the
  fixed constants the program's literals denote. The source has no such function; the two
  cascades above are compared with it.
\<close>

datatype DriftLabel = Disengagement | Frustration | Confusion | Boredom | NoDrift

definition policy_engine :: "pyfloat \<Rightarrow> pyfloat \<Rightarrow> pyfloat \<Rightarrow> pyfloat \<Rightarrow> DriftLabel" where
  "policy_engine boredom confusion engagement frustration =
     (if float_lt engagement 2.5 then Disengagement
      else if float_gt frustration 0.5 then Frustration
      else if float_gt confusion double_0_61 then Confusion
      else if float_gt boredom double_1_05 then Boredom
      else NoDrift)"

text \<open>How each handler renders a label: the \<^verbatim>\<open>return\<close> statement of the matching branch.\<close>

fun primary_render :: "'img collaborators \<Rightarrow> DriftLabel \<Rightarrow> pyexc + string" where
  "primary_render env Disengagement = get_recommendation env ''disengagement''"
| "primary_render env Frustration = get_recommendation env ''frustration''"
| "primary_render env Confusion = get_recommendation env ''confusion''"
| "primary_render env Boredom = get_recommendation env ''boredom''"
| "primary_render env NoDrift = Inr ''Good news, no cognitive drift recognized!''"

fun backup_render :: "DriftLabel \<Rightarrow> string" where
  "backup_render Disengagement = ''Disengagement: careful, you're losing focus!''"
| "backup_render Frustration = ''Frustration: maybe it's time for a pause?''"
| "backup_render Confusion = ''Confusion: ask someone else's opinion on what you do not understand?''"
| "backup_render Boredom = ''Boredom: a short walk to get back into things!''"
| "backup_render NoDrift = ''Good news: no cognitive drift recognized!''"

text \<open>
  The branches in the order they are written, the test written on each (\<^verbatim>\<open>else\<close> has none),
  and when a branch fires: its test holds and the test of no earlier branch does.
\<close>

definition branch_order :: "DriftLabel list" where
  "branch_order = [Disengagement, Frustration, Confusion, Boredom, NoDrift]"

fun branch_test :: "DriftLabel \<Rightarrow> pyfloat \<Rightarrow> pyfloat \<Rightarrow> pyfloat \<Rightarrow> pyfloat \<Rightarrow> bool" where
  "branch_test Disengagement boredom confusion engagement frustration = float_lt engagement 2.5"
| "branch_test Frustration boredom confusion engagement frustration = float_gt frustration 0.5"
| "branch_test Confusion boredom confusion engagement frustration = float_gt confusion double_0_61"
| "branch_test Boredom boredom confusion engagement frustration = float_gt boredom double_1_05"
| "branch_test NoDrift boredom confusion engagement frustration = True"

definition fires :: "DriftLabel \<Rightarrow> pyfloat \<Rightarrow> pyfloat \<Rightarrow> pyfloat \<Rightarrow> pyfloat \<Rightarrow> bool" where
  "fires l boredom confusion engagement frustration =
     (branch_test l boredom confusion engagement frustration \<and>
      (\<forall>l' \<in> set (takeWhile (\<lambda>x. x \<noteq> l) branch_order).
         \<not> branch_test l' boredom confusion engagement frustration))"


section \<open>The admission controller\<close>

text \<open>The three routes decorated with \<^verbatim>\<open>@limiter.limit\<close>.\<close>

datatype route = Test | Predict | Backup

record RateLimitBudget =
  max_requests :: nat
  window_duration :: nat

text \<open>
  The budgets of the decorators, with the minute in seconds: \<^verbatim>\<open>"5/minute"\<close> on
  \<^verbatim>\<open>check_request\<close> (line 102), \<^verbatim>\<open>"2/minute"\<close> on \<^verbatim>\<open>analyze_drift\<close> (line 125) and on
  \<^verbatim>\<open>backup_analysis\<close> (line 158).
\<close>

fun route_budget :: "route \<Rightarrow> RateLimitBudget" where
  "route_budget Test = \<lparr>max_requests = 5, window_duration = 60\<rparr>"
| "route_budget Predict = \<lparr>max_requests = 2, window_duration = 60\<rparr>"
| "route_budget Backup = \<lparr>max_requests = 2, window_duration = 60\<rparr>"

text \<open>ClientWindowState: for a route and a client identity, \<open>(count, window_start)\<close>.\<close>

type_synonym ClientWindowState = "route \<times> string \<rightharpoonup> nat \<times> nat"

text \<open>
  Modelled from the spec: the limiter itself (\<^verbatim>\<open>slowapi.Limiter\<close> and its storage) is not
  in \<^verbatim>\<open>src/\<close>, only its construction and the three decorators are. Section 4.5: consult
  ClientWindowState for the route and the client; window rollover resets the count to zero
  and re-anchors the window start; if the count within the current window is at or above
  \<open>max_requests\<close>, reject; otherwise increment the count and proceed. The clock is the
  argument \<open>now\<close>, in seconds.
\<close>

definition current_window :: "RateLimitBudget \<Rightarrow> (nat \<times> nat) option \<Rightarrow> nat \<Rightarrow> nat \<times> nat" where
  "current_window budget entry now =
     (case entry of
        None \<Rightarrow> (0, now)
      | Some (count, window_start) \<Rightarrow>
          if now < window_start + window_duration budget then (count, window_start)
          else (0, now))"

definition admission_controller ::
    "ClientWindowState \<Rightarrow> route \<Rightarrow> string \<Rightarrow> nat \<Rightarrow> bool \<times> ClientWindowState" where
  "admission_controller st r client now =
     (case current_window (route_budget r) (st (r, client)) now of
        (count, window_start) \<Rightarrow>
          if count \<ge> max_requests (route_budget r)
          then (False, st((r, client) \<mapsto> (count, window_start)))
          else (True, st((r, client) \<mapsto> (count + 1, window_start))))"

text \<open>
  A decorated route: the controller decides first; a rejected request gets the
  \<^verbatim>\<open>RateLimitExceeded\<close> answer of the registered handler (line 88) and the route function is
  not called.
\<close>

datatype 'a served = RateLimitExceeded | Handled 'a

definition limited ::
    "ClientWindowState \<Rightarrow> route \<Rightarrow> string \<Rightarrow> nat \<Rightarrow> 'a \<Rightarrow> 'a served \<times> ClientWindowState" where
  "limited st r client now handler_result =
     (case admission_controller st r client now of
        (True, st') \<Rightarrow> (Handled handler_result, st')
      | (False, st') \<Rightarrow> (RateLimitExceeded, st'))"

definition post_test ::
    "ClientWindowState \<Rightarrow> nat \<Rightarrow> request \<Rightarrow> response served \<times> ClientWindowState" where
  "post_test st now request = limited st Test (req_client request) now (check_request request)"

definition post_predict ::
    "'img collaborators \<Rightarrow> ClientWindowState \<Rightarrow> nat \<Rightarrow> request
       \<Rightarrow> (pyexc + pyobj) served \<times> ClientWindowState" where
  "post_predict env st now request =
     limited st Predict (req_client request) now (analyze_drift env request)"

definition post_backup ::
    "'img collaborators \<Rightarrow> ClientWindowState \<Rightarrow> nat \<Rightarrow> request
       \<Rightarrow> (pyexc + pyobj) served \<times> ClientWindowState" where
  "post_backup env st now request =
     limited st Backup (req_client request) now (backup_analysis env request)"

text \<open>A trace of requests \<open>(route, client, time)\<close>: the decisions, and the state it leaves.\<close>

fun decisions :: "ClientWindowState \<Rightarrow> (route \<times> string \<times> nat) list \<Rightarrow> bool list" where
  "decisions st [] = []"
| "decisions st ((r, client, now) # reqs) =
     (case admission_controller st r client now of
        (ok, st') \<Rightarrow> ok # decisions st' reqs)"

fun state_after :: "ClientWindowState \<Rightarrow> (route \<times> string \<times> nat) list \<Rightarrow> ClientWindowState" where
  "state_after st [] = st"
| "state_after st ((r, client, now) # reqs) =
     state_after (snd (admission_controller st r client now)) reqs"


text \<open>
  Within a trace of all clients and routes: the decisions on the requests of one client to
  one route, and the times of those requests.
\<close>

fun outcomes_for ::
    "route \<Rightarrow> string \<Rightarrow> ClientWindowState \<Rightarrow> (route \<times> string \<times> nat) list \<Rightarrow> bool list" where
  "outcomes_for r client st [] = []"
| "outcomes_for r client st ((r', client', now) # reqs) =
     (case admission_controller st r' client' now of
        (ok, st') \<Rightarrow>
          if r' = r \<and> client' = client then ok # outcomes_for r client st' reqs
          else outcomes_for r client st' reqs)"

fun times_of :: "route \<Rightarrow> string \<Rightarrow> (route \<times> string \<times> nat) list \<Rightarrow> nat list" where
  "times_of r client [] = []"
| "times_of r client ((r', client', now) # reqs) =
     (if r' = r \<and> client' = client then now # times_of r client reqs
      else times_of r client reqs)"

section \<open>Test doubles\<close>

text \<open>
  Collaborators for the concrete runs below: an empty payload is not an image, every other
  payload decodes, the classifier answers \<open>v\<close>, the generator answers with a sentence on
  the label.
\<close>

definition stub_collaborators :: "pyval \<Rightarrow> unit collaborators" where
  "stub_collaborators v =
     \<lparr>image_open = (\<lambda>body. if body = [] then Inl (PyExc True ''cannot identify image file'') else Inr ()),
      cnn_get_emotion = (\<lambda>pilimage. Inr v),
      get_recommendation = (\<lambda>label. Inr (''Advice on '' @ label))\<rparr>"

definition image_request :: request where
  "image_request =
     \<lparr>req_headers = [(''content-type'', ''image/jpeg'')], req_client = ''127.0.0.1'', req_body = ''JFIF''\<rparr>"

definition empty_request :: request where
  "empty_request = \<lparr>req_headers = [], req_client = ''127.0.0.1'', req_body = []\<rparr>"

definition hello_request :: request where
  "hello_request =
     \<lparr>req_headers = [(''content-type'', ''text/plain'')], req_client = ''127.0.0.1'',
      req_body = ''Hello World !''\<rparr>"

definition scores :: "real \<Rightarrow> real \<Rightarrow> real \<Rightarrow> real \<Rightarrow> pyval" where
  "scores boredom confusion engagement frustration =
     PyList [PyNum (Finite boredom), PyNum (Finite confusion), PyNum (Finite engagement),
             PyNum (Finite frustration)]"

definition latin_request :: request where
  "latin_request =
     \<lparr>req_headers = [(''content-type'', ''text/plain; Charset=latin-1'')],
      req_client = ''127.0.0.1'', req_body = ''Hello World !''\<rparr>"

definition untyped_request :: request where
  "untyped_request =
     \<lparr>req_headers = [(''user-agent'', ''curl'')], req_client = ''127.0.0.1'',
      req_body = ''Hello World !''\<rparr>"

definition five_scores :: pyval where
  "five_scores =
     PyList [PyNum (Finite 0), PyNum (Finite 0), PyNum (Finite 0), PyNum (Finite 0),
             PyNum (Finite 0)]"

definition three_scores :: pyval where
  "three_scores = PyList [PyNum (Finite 0), PyNum (Finite 0), PyNum (Finite 3)]"


text \<open>A state in which one client has used up an old \<^verbatim>\<open>/predict\<close> window, and a trace that
  mixes its later requests with requests of another client and to another route.\<close>

definition busy_state :: ClientWindowState where
  "busy_state = [(Predict, ''127.0.0.1'') \<mapsto> (2, 0)]"

definition mixed_trace :: "(route \<times> string \<times> nat) list" where
  "mixed_trace =
     [(Predict, ''127.0.0.1'', 60), (Test, ''127.0.0.1'', 61), (Predict, ''10.0.0.2'', 62),
      (Predict, ''127.0.0.1'', 70), (Predict, ''127.0.0.1'', 119)]"

section \<open>Auxiliary facts\<close>

lemma then_do_Inr: "then_do (Inr v) k = k v"
  by (simp add: then_do_def)

lemma then_do_Inl: "then_do (Inl exc) k = Inl exc"
  by (simp add: then_do_def)

lemma float_ge_not_lt: "float_ge x t \<Longrightarrow> \<not> float_lt x t"
  by (cases x) auto

text \<open>Once the image decodes and the classifier answers a list of four or more entries,
  each \<^verbatim>\<open>try\<close> block is its cascade on the first four.\<close>

lemma predict_try_decoded:
  assumes "image_open env body = Inr pilimage"
    and "cnn_get_emotion env pilimage = Inr (PyList (b # c # e # f # rest))"
  shows "predict_try env body = predict_cascade env b c e f"
  using assms by (simp add: predict_try_def then_do_Inr)

lemma backup_try_decoded:
  assumes "image_open env body = Inr pilimage"
    and "cnn_get_emotion env pilimage = Inr (PyList (b # c # e # f # rest))"
  shows "backup_try env body = backup_cascade b c e f"
  using assms by (simp add: backup_try_def then_do_Inr)

text \<open>On four numbers, both cascades are the policy engine followed by a rendering.\<close>

lemma predict_cascade_policy:
  "predict_cascade env (PyNum b) (PyNum c) (PyNum e) (PyNum f)
     = primary_render env (policy_engine b c e f)"
  by (simp add: predict_cascade_def policy_engine_def then_do_Inr)

lemma backup_cascade_policy:
  "backup_cascade (PyNum b) (PyNum c) (PyNum e) (PyNum f)
     = Inr (backup_render (policy_engine b c e f))"
  by (simp add: backup_cascade_def policy_engine_def then_do_Inr)

lemmas stub_simps =
  stub_collaborators_def scores_def image_request_def empty_request_def hello_request_def
  untyped_request_def latin_request_def five_scores_def three_scores_def double_0_61_def double_1_05_def

text \<open>A branch fires exactly when the policy engine selects its label.\<close>

lemma fires_policy: "fires l b c e f \<longleftrightarrow> l = policy_engine b c e f"
  by (cases l) (auto simp: fires_def branch_order_def policy_engine_def)

text \<open>A classifier answer that is too short, or not a list, ends the \<^verbatim>\<open>try\<close> block.\<close>

lemma predict_try_short:
  assumes "image_open env body = Inr pilimage"
    and "cnn_get_emotion env pilimage = Inr (PyList xs)" and "length xs < 4"
  shows "predict_try env body = Inl IndexError"
  using assms by (simp add: predict_try_def then_do_def)

lemma backup_try_short:
  assumes "image_open env body = Inr pilimage"
    and "cnn_get_emotion env pilimage = Inr (PyList xs)" and "length xs < 4"
  shows "backup_try env body = Inl IndexError"
  using assms by (simp add: backup_try_def then_do_def)

lemma predict_try_number:
  assumes "image_open env body = Inr pilimage"
    and "cnn_get_emotion env pilimage = Inr (PyNum x)"
  shows "predict_try env body = Inl TypeError_subscript"
  using assms by (simp add: predict_try_def then_do_def)

lemma backup_try_number:
  assumes "image_open env body = Inr pilimage"
    and "cnn_get_emotion env pilimage = Inr (PyNum x)"
  shows "backup_try env body = Inl TypeError_subscript"
  using assms by (simp add: backup_try_def then_do_def)


section \<open>The threshold cascade\<close>

text \<open>
  C1. Whenever the engagement score is below 2.5, both handlers take the disengagement
  branch, whatever the other three entries are (numbers or not): \<^verbatim>\<open>/predict\<close> answers with
  the outcome of \<^verbatim>\<open>llm.get_recommendation("disengagement")\<close> and \<^verbatim>\<open>/backup\<close> with its
  disengagement message. No other test is evaluated before this one.
\<close>

theorem disengagement_has_priority:
  assumes "image_open env (req_body request) = Inr pilimage"
    and "cnn_get_emotion env pilimage
           = Inr (PyList (boredom # confusion # PyNum engagement # frustration # rest))"
    and "float_lt engagement 2.5"
  shows "analyze_drift env request = predict_except (get_recommendation env ''disengagement'') \<and>
         backup_analysis env request = Inr (PyStr ''Disengagement: careful, you're losing focus!'')"
proof -
  have "predict_cascade env boredom confusion (PyNum engagement) frustration
          = get_recommendation env ''disengagement''"
    using assms(3) by (simp add: predict_cascade_def then_do_Inr)
  moreover have "backup_cascade boredom confusion (PyNum engagement) frustration
          = Inr ''Disengagement: careful, you're losing focus!''"
    using assms(3) by (simp add: backup_cascade_def then_do_Inr)
  ultimately show ?thesis
    using predict_try_decoded[OF assms(1,2)] backup_try_decoded[OF assms(1,2)]
    by (simp add: analyze_drift_def backup_analysis_def backup_except_def)
qed

theorem disengagement_has_priority_witness:
  "float_lt (Finite 1) 2.5 \<and>
   analyze_drift (stub_collaborators (scores 9 9 1 9)) image_request
     = Inr (PyStr ''Advice on disengagement'') \<and>
   backup_analysis (stub_collaborators (scores 9 9 1 9)) image_request
     = Inr (PyStr ''Disengagement: careful, you're losing focus!'')"
  using disengagement_has_priority [of "stub_collaborators (scores 9 9 1 9)" image_request "()"
      "PyNum (Finite 9)" "PyNum (Finite 9)" "Finite 1" "PyNum (Finite 9)" "[]"]
  by (simp add: stub_simps predict_except_def)

text \<open>
  C2. With an engagement score of at least 2.5 and four numeric scores, both handlers go
  through the remaining tests in the order frustration, confusion, boredom, and the first
  that holds decides: above \<^verbatim>\<open>0.5\<close> the frustration branch, else above \<^verbatim>\<open>0.61\<close> the confusion
  branch, else above \<^verbatim>\<open>1.05\<close> the boredom branch, else the no-drift message, where each
  threshold is the double its literal denotes. The selected label is the one the policy
  engine of the specification gives. The second run below is at the boundary: a boredom
  score equal to the double of \<^verbatim>\<open>1.05\<close> is not above it, and the answer is the no-drift
  message.
\<close>

theorem remaining_branches_in_order:
  assumes "image_open env (req_body request) = Inr pilimage"
    and "cnn_get_emotion env pilimage
           = Inr (PyList (PyNum boredom # PyNum confusion # PyNum engagement # PyNum frustration # rest))"
    and "float_ge engagement 2.5"
  shows "policy_engine boredom confusion engagement frustration
           = (if float_gt frustration 0.5 then Frustration
              else if float_gt confusion double_0_61 then Confusion
              else if float_gt boredom double_1_05 then Boredom
              else NoDrift) \<and>
         analyze_drift env request
           = predict_except
               (if float_gt frustration 0.5 then get_recommendation env ''frustration''
                else if float_gt confusion double_0_61 then get_recommendation env ''confusion''
                else if float_gt boredom double_1_05 then get_recommendation env ''boredom''
                else Inr ''Good news, no cognitive drift recognized!'') \<and>
         backup_analysis env request
           = Inr (PyStr
               (if float_gt frustration 0.5 then ''Frustration: maybe it's time for a pause?''
                else if float_gt confusion double_0_61
                  then ''Confusion: ask someone else's opinion on what you do not understand?''
                else if float_gt boredom double_1_05 then ''Boredom: a short walk to get back into things!''
                else ''Good news: no cognitive drift recognized!''))"
proof -
  have no: "\<not> float_lt engagement 2.5"
    using assms(3) by (rule float_ge_not_lt)
  have "predict_try env (req_body request)
          = predict_cascade env (PyNum boredom) (PyNum confusion) (PyNum engagement) (PyNum frustration)"
    using assms(1,2) by (rule predict_try_decoded)
  moreover have "backup_try env (req_body request)
          = backup_cascade (PyNum boredom) (PyNum confusion) (PyNum engagement) (PyNum frustration)"
    using assms(1,2) by (rule backup_try_decoded)
  ultimately show ?thesis
    using no
    by (simp add: analyze_drift_def backup_analysis_def backup_except_def policy_engine_def
        predict_cascade_def backup_cascade_def then_do_Inr)
qed

theorem remaining_branches_in_order_witness:
  "float_ge (Finite 3) 2.5 \<and>
   analyze_drift (stub_collaborators (scores 2 0.7 3 0.2)) image_request
     = Inr (PyStr ''Advice on confusion'') \<and>
   backup_analysis (stub_collaborators (scores 2 0.7 3 0.2)) image_request
     = Inr (PyStr ''Confusion: ask someone else's opinion on what you do not understand?'') \<and>
   analyze_drift (stub_collaborators (scores double_1_05 0 3 0)) image_request
     = Inr (PyStr ''Good news, no cognitive drift recognized!'') \<and>
   backup_analysis (stub_collaborators (scores double_1_05 0 3 0)) image_request
     = Inr (PyStr ''Good news: no cognitive drift recognized!'')"
  using remaining_branches_in_order [of "stub_collaborators (scores 2 0.7 3 0.2)" image_request "()"
      "Finite 2" "Finite 0.7" "Finite 3" "Finite 0.2" "[]"]
    remaining_branches_in_order [of "stub_collaborators (scores double_1_05 0 3 0)" image_request
      "()" "Finite double_1_05" "Finite 0" "Finite 3" "Finite 0" "[]"]
  by (simp add: stub_simps predict_except_def double_0_61_def double_1_05_def)

text \<open>
  C3. For any four numeric scores (NaN and the infinities included) exactly one of the five
  branches fires, and each cascade returns the outcome of that branch: the recommendation
  call or the fixed message in \<^verbatim>\<open>/predict\<close>, the fixed message in \<^verbatim>\<open>/backup\<close>.
\<close>

theorem exactly_one_branch_fires:
  "(\<exists>!l. fires l boredom confusion engagement frustration) \<and>
   (\<forall>l. fires l boredom confusion engagement frustration \<longrightarrow>
      predict_cascade env (PyNum boredom) (PyNum confusion) (PyNum engagement) (PyNum frustration)
        = primary_render env l \<and>
      backup_cascade (PyNum boredom) (PyNum confusion) (PyNum engagement) (PyNum frustration)
        = Inr (backup_render l))"
  by (simp add: fires_policy predict_cascade_policy backup_cascade_policy)

theorem exactly_one_branch_fires_witness:
  "fires Frustration (Finite 2) (Finite 0.7) (Finite 3) (Finite 0.6) \<and>
   predict_cascade (stub_collaborators (PyList [])) (PyNum (Finite 2)) (PyNum (Finite 0.7))
       (PyNum (Finite 3)) (PyNum (Finite 0.6))
     = Inr ''Advice on frustration'' \<and>
   backup_cascade (PyNum (Finite 2)) (PyNum (Finite 0.7)) (PyNum (Finite 3)) (PyNum (Finite 0.6))
     = Inr ''Frustration: maybe it's time for a pause?''"
proof -
  have f: "fires Frustration (Finite 2) (Finite 0.7) (Finite 3) (Finite 0.6)"
    by (simp add: fires_def branch_order_def double_0_61_def double_1_05_def)
  from exactly_one_branch_fires [of "Finite 2" "Finite 0.7" "Finite 3" "Finite 0.6"
      "stub_collaborators (PyList [])"] f
  show ?thesis by (simp add: stub_simps)
qed


section \<open>The two response strategies\<close>

text \<open>
  C4, as the claim states it, fails: on the no-drift outcome \<^verbatim>\<open>/predict\<close> returns
  "Good news, no cognitive drift recognized!" and \<^verbatim>\<open>/backup\<close> returns
  "Good news: no cognitive drift recognized!"; the two strings differ after "Good news".
\<close>

theorem no_drift_messages_differ:
  "policy_engine (Finite 0) (Finite 0) (Finite 3) (Finite 0) = NoDrift \<and>
   analyze_drift (stub_collaborators (scores 0 0 3 0)) image_request
     = Inr (PyStr ''Good news, no cognitive drift recognized!'') \<and>
   backup_analysis (stub_collaborators (scores 0 0 3 0)) image_request
     = Inr (PyStr ''Good news: no cognitive drift recognized!'') \<and>
   analyze_drift (stub_collaborators (scores 0 0 3 0)) image_request
     \<noteq> backup_analysis (stub_collaborators (scores 0 0 3 0)) image_request"
  by (simp add: stub_simps policy_engine_def analyze_drift_def backup_analysis_def
      predict_except_def backup_except_def predict_try_def backup_try_def
      predict_cascade_def backup_cascade_def then_do_Inr)

text \<open>
  C4, amended. For every classifier answer of four numeric scores both handlers select the
  same label, the one of the policy engine, and differ only in its rendering; on the
  no-drift outcome each returns its own fixed message.
\<close>

theorem handlers_select_same_label:
  assumes "image_open env (req_body request) = Inr pilimage"
    and "cnn_get_emotion env pilimage
           = Inr (PyList (PyNum boredom # PyNum confusion # PyNum engagement # PyNum frustration # rest))"
  shows "analyze_drift env request
           = predict_except (primary_render env (policy_engine boredom confusion engagement frustration)) \<and>
         backup_analysis env request
           = Inr (PyStr (backup_render (policy_engine boredom confusion engagement frustration))) \<and>
         (policy_engine boredom confusion engagement frustration = NoDrift \<longrightarrow>
            analyze_drift env request = Inr (PyStr ''Good news, no cognitive drift recognized!'') \<and>
            backup_analysis env request = Inr (PyStr ''Good news: no cognitive drift recognized!''))"
proof -
  have p: "analyze_drift env request
      = predict_except (primary_render env (policy_engine boredom confusion engagement frustration))"
    using predict_try_decoded[OF assms]
    by (simp add: analyze_drift_def predict_cascade_policy)
  have b: "backup_analysis env request
      = Inr (PyStr (backup_render (policy_engine boredom confusion engagement frustration)))"
    using backup_try_decoded[OF assms]
    by (simp add: backup_analysis_def backup_cascade_policy backup_except_def)
  show ?thesis
    using p b by (simp add: predict_except_def)
qed

theorem handlers_select_same_label_witness:
  "policy_engine (Finite 2) (Finite 0) (Finite 3) (Finite 0) = Boredom \<and>
   analyze_drift (stub_collaborators (scores 2 0 3 0)) image_request
     = Inr (PyStr ''Advice on boredom'') \<and>
   backup_analysis (stub_collaborators (scores 2 0 3 0)) image_request
     = Inr (PyStr ''Boredom: a short walk to get back into things!'') \<and>
   policy_engine (Finite 0) (Finite 0) (Finite 3) (Finite 0) = NoDrift \<and>
   analyze_drift (stub_collaborators (scores 0 0 3 0)) image_request
     = Inr (PyStr ''Good news, no cognitive drift recognized!'')"
  using handlers_select_same_label [of "stub_collaborators (scores 2 0 3 0)" image_request "()"
      "Finite 2" "Finite 0" "Finite 3" "Finite 0" "[]"]
    handlers_select_same_label [of "stub_collaborators (scores 0 0 3 0)" image_request "()"
      "Finite 0" "Finite 0" "Finite 3" "Finite 0" "[]"]
  by (simp add: stub_simps policy_engine_def predict_except_def)


section \<open>Errors\<close>

text \<open>
  C5. When decoding the image, the classifier call or the recommendation call raises an
  \<^verbatim>\<open>Exception\<close>, \<^verbatim>\<open>analyze_drift\<close> returns normally, and what it returns is the diagnostic
  string that points to \<^verbatim>\<open>/backup\<close> followed by the text of the exception.
\<close>

theorem predict_errors_become_diagnostic:
  assumes "is_Exception exc"
    and "image_open env (req_body request) = Inl exc \<or>
         (\<exists>pilimage. image_open env (req_body request) = Inr pilimage \<and>
            cnn_get_emotion env pilimage = Inl exc) \<or>
         (\<exists>pilimage b c e f rest. image_open env (req_body request) = Inr pilimage \<and>
            cnn_get_emotion env pilimage = Inr (PyList (PyNum b # PyNum c # PyNum e # PyNum f # rest)) \<and>
            primary_render env (policy_engine b c e f) = Inl exc)"
  shows "analyze_drift env request
           = Inr (PyStr (''Error in the process! Please use /backup endpoint for now. Displaying error message:\<newline>''
                         @ description exc))"
proof -
  have "predict_try env (req_body request) = Inl exc"
    using assms(2)
  proof (elim disjE exE conjE)
    assume "image_open env (req_body request) = Inl exc"
    then show ?thesis by (simp add: predict_try_def then_do_Inl)
  next
    fix pilimage
    assume "image_open env (req_body request) = Inr pilimage"
      and "cnn_get_emotion env pilimage = Inl exc"
    then show ?thesis by (simp add: predict_try_def then_do_Inl then_do_Inr)
  next
    fix pilimage b c e f rest
    assume d: "image_open env (req_body request) = Inr pilimage"
      and s: "cnn_get_emotion env pilimage = Inr (PyList (PyNum b # PyNum c # PyNum e # PyNum f # rest))"
      and r: "primary_render env (policy_engine b c e f) = Inl exc"
    show ?thesis
      using predict_try_decoded[OF d s] r by (simp add: predict_cascade_policy)
  qed
  then show ?thesis
    using assms(1) by (simp add: analyze_drift_def predict_except_def)
qed

theorem predict_errors_become_diagnostic_witness:
  "is_Exception (PyExc True ''cannot identify image file'') \<and>
   image_open (stub_collaborators (scores 0 0 3 0)) (req_body empty_request)
     = Inl (PyExc True ''cannot identify image file'') \<and>
   analyze_drift (stub_collaborators (scores 0 0 3 0)) empty_request
     = Inr (PyStr ''Error in the process! Please use /backup endpoint for now. Displaying error message:\<newline>cannot identify image file'')"
  using predict_errors_become_diagnostic [of "PyExc True ''cannot identify image file''"
      "stub_collaborators (scores 0 0 3 0)" empty_request]
  by (simp add: stub_simps)

text \<open>
  C6. On an empty body the decoder raises; \<^verbatim>\<open>backup_analysis\<close> catches the exception and
  returns the exception object itself, which is not the string of its description.
\<close>

theorem backup_returns_exception_object:
  "backup_analysis (stub_collaborators (scores 0 0 3 0)) empty_request
     = Inr (PyExcObj (PyExc True ''cannot identify image file'')) \<and>
   backup_analysis (stub_collaborators (scores 0 0 3 0)) empty_request
     \<noteq> Inr (PyStr (description (PyExc True ''cannot identify image file'')))"
  by (simp add: stub_simps backup_analysis_def backup_except_def backup_try_def then_do_Inl)

text \<open>
  C7, as the claim states it, fails: a score list of five entries does not have exactly four,
  and both handlers run the cascade on its first four entries and answer with a drift label.
\<close>

theorem five_scores_reach_cascade:
  "five_scores
     = PyList [PyNum (Finite 0), PyNum (Finite 0), PyNum (Finite 0), PyNum (Finite 0),
               PyNum (Finite 0)] \<and>
   length [PyNum (Finite 0), PyNum (Finite 0), PyNum (Finite 0), PyNum (Finite 0),
           PyNum (Finite 0)] \<noteq> 4 \<and>
   analyze_drift (stub_collaborators five_scores) image_request
     = Inr (PyStr ''Advice on disengagement'') \<and>
   backup_analysis (stub_collaborators five_scores) image_request
     = Inr (PyStr ''Disengagement: careful, you're losing focus!'')"
  by (simp add: stub_simps analyze_drift_def backup_analysis_def
      predict_except_def backup_except_def predict_try_def backup_try_def
      predict_cascade_def backup_cascade_def then_do_Inr)

text \<open>
  C7, amended. After a successful decoding, a classifier answer that is a list of fewer
  than four entries, or a bare number, raises inside the \<^verbatim>\<open>try\<close> block (\<^verbatim>\<open>IndexError\<close>,
  \<^verbatim>\<open>TypeError\<close>): \<^verbatim>\<open>/predict\<close> returns its diagnostic string, \<^verbatim>\<open>/backup\<close> what its
  \<^verbatim>\<open>except\<close> clause returns, and neither returns a drift message. A list of more than four
  entries is not rejected: the cascade runs on its first four entries.
\<close>

theorem short_score_list_is_error:
  assumes "image_open env (req_body request) = Inr pilimage"
  shows "(\<forall>xs. cnn_get_emotion env pilimage = Inr (PyList xs) \<and> length xs < 4 \<longrightarrow>
            analyze_drift env request
              = Inr (PyStr (''Error in the process! Please use /backup endpoint for now. Displaying error message:\<newline>''
                            @ description IndexError)) \<and>
            backup_analysis env request = backup_except (Inl IndexError) \<and>
            (\<forall>s. backup_analysis env request \<noteq> Inr (PyStr s))) \<and>
         (\<forall>x. cnn_get_emotion env pilimage = Inr (PyNum x) \<longrightarrow>
            analyze_drift env request
              = Inr (PyStr (''Error in the process! Please use /backup endpoint for now. Displaying error message:\<newline>''
                            @ description TypeError_subscript)) \<and>
            backup_analysis env request = backup_except (Inl TypeError_subscript) \<and>
            (\<forall>s. backup_analysis env request \<noteq> Inr (PyStr s))) \<and>
         (\<forall>b c e f rest. cnn_get_emotion env pilimage = Inr (PyList (b # c # e # f # rest)) \<longrightarrow>
            analyze_drift env request = predict_except (predict_cascade env b c e f) \<and>
            backup_analysis env request = backup_except (backup_cascade b c e f))"
proof (intro conjI allI impI)
  fix xs assume a: "cnn_get_emotion env pilimage = Inr (PyList xs) \<and> length xs < 4"
  have p: "predict_try env (req_body request) = Inl IndexError"
    using assms a by (simp add: predict_try_short)
  have b: "backup_try env (req_body request) = Inl IndexError"
    using assms a by (simp add: backup_try_short)
  show "analyze_drift env request
              = Inr (PyStr (''Error in the process! Please use /backup endpoint for now. Displaying error message:\<newline>''
                            @ description IndexError))"
    using p by (simp add: analyze_drift_def predict_except_def IndexError_def)
  show "backup_analysis env request = backup_except (Inl IndexError)"
    using b by (simp add: backup_analysis_def)
  show "backup_analysis env request \<noteq> Inr (PyStr s)" for s
    using b by (simp add: backup_analysis_def backup_except_def IndexError_def)
next
  fix x assume a: "cnn_get_emotion env pilimage = Inr (PyNum x)"
  have p: "predict_try env (req_body request) = Inl TypeError_subscript"
    using assms a by (simp add: predict_try_number)
  have b: "backup_try env (req_body request) = Inl TypeError_subscript"
    using assms a by (simp add: backup_try_number)
  show "analyze_drift env request
              = Inr (PyStr (''Error in the process! Please use /backup endpoint for now. Displaying error message:\<newline>''
                            @ description TypeError_subscript))"
    using p by (simp add: analyze_drift_def predict_except_def TypeError_subscript_def)
  show "backup_analysis env request = backup_except (Inl TypeError_subscript)"
    using b by (simp add: backup_analysis_def)
  show "backup_analysis env request \<noteq> Inr (PyStr s)" for s
    using b by (simp add: backup_analysis_def backup_except_def TypeError_subscript_def)
next
  fix b c e f rest
  assume a: "cnn_get_emotion env pilimage = Inr (PyList (b # c # e # f # rest))"
  show "analyze_drift env request = predict_except (predict_cascade env b c e f)"
    using predict_try_decoded[OF assms a] by (simp add: analyze_drift_def)
  show "backup_analysis env request = backup_except (backup_cascade b c e f)"
    using backup_try_decoded[OF assms a] by (simp add: backup_analysis_def)
qed

theorem short_score_list_is_error_witness:
  "image_open (stub_collaborators three_scores) (req_body image_request) = Inr () \<and>
   cnn_get_emotion (stub_collaborators three_scores) ()
     = Inr (PyList [PyNum (Finite 0), PyNum (Finite 0), PyNum (Finite 3)]) \<and>
   length [PyNum (Finite 0), PyNum (Finite 0), PyNum (Finite 3)] < 4 \<and>
   analyze_drift (stub_collaborators three_scores) image_request
     = Inr (PyStr ''Error in the process! Please use /backup endpoint for now. Displaying error message:\<newline>list index out of range'')"
  using short_score_list_is_error [of "stub_collaborators three_scores" image_request "()"]
  by (simp add: stub_simps IndexError_def)


section \<open>The echo route\<close>

text \<open>
  C8, as the claim states it, fails on its own example: \<^verbatim>\<open>b"Hello World !"\<close> sent as
  \<^verbatim>\<open>text/plain\<close> comes back with the same bytes, but the content type of the response is
  \<^verbatim>\<open>text/plain; charset=utf-8\<close>, not the declared \<^verbatim>\<open>text/plain\<close>.
\<close>

theorem text_plain_gains_charset:
  "req_body hello_request = ''Hello World !'' \<and>
   map_of (req_headers hello_request) ''content-type'' = Some ''text/plain'' \<and>
   content (check_request hello_request) = ''Hello World !'' \<and>
   content_type (check_request hello_request) = ''text/plain; charset=utf-8'' \<and>
   content_type (check_request hello_request) \<noteq> ''text/plain''"
  by (simp add: stub_simps check_request_def headers_get_def Response_def startswith_def
      ascii_lower_def)

text \<open>
  C8, amended. For every request with a content-type header, \<^verbatim>\<open>check_request\<close> answers
  with the request body unchanged and passes the declared type on as the media type; the
  content type of the response is the declared one, except that \<^verbatim>\<open>; charset=utf-8\<close> is
  appended to a declared type that starts with \<^verbatim>\<open>text/\<close> and names no charset.
\<close>

theorem test_route_echoes:
  assumes "map_of (req_headers request) ''content-type'' = Some declared"
  shows "content (check_request request) = req_body request \<and>
         media_type (check_request request) = declared \<and>
         content_type (check_request request)
           = (if startswith declared ''text/'' \<and> \<not> contains (map ascii_lower declared) ''charset=''
              then declared @ ''; charset=utf-8''
              else declared)"
  using assms by (simp add: check_request_def headers_get_def Response_def)

theorem test_route_echoes_witness:
  "map_of (req_headers hello_request) ''content-type'' = Some ''text/plain'' \<and>
   content (check_request hello_request) = ''Hello World !'' \<and>
   media_type (check_request hello_request) = ''text/plain'' \<and>
   content_type (check_request hello_request) = ''text/plain; charset=utf-8'' \<and>
   map_of (req_headers image_request) ''content-type'' = Some ''image/jpeg'' \<and>
   content (check_request image_request) = ''JFIF'' \<and>
   content_type (check_request image_request) = ''image/jpeg'' \<and>
   map_of (req_headers latin_request) ''content-type'' = Some ''text/plain; Charset=latin-1'' \<and>
   content_type (check_request latin_request) = ''text/plain; Charset=latin-1''"
  using test_route_echoes [of hello_request "''text/plain''"]
    test_route_echoes [of image_request "''image/jpeg''"]
    test_route_echoes [of latin_request "''text/plain; Charset=latin-1''"]
  by (simp add: stub_simps startswith_def ascii_lower_def)

text \<open>
  C10. Without a content-type header, \<^verbatim>\<open>check_request\<close> answers with the body unchanged
  and the media type \<^verbatim>\<open>application/octet-stream\<close>, which is also the content type of the
  response.
\<close>

theorem test_route_default_media_type:
  assumes "map_of (req_headers request) ''content-type'' = None"
  shows "check_request request
           = \<lparr>content = req_body request, media_type = ''application/octet-stream'',
              content_type = ''application/octet-stream''\<rparr>"
  using assms by (simp add: check_request_def headers_get_def Response_def startswith_def)

theorem test_route_default_media_type_witness:
  "map_of (req_headers untyped_request) ''content-type'' = None \<and>
   check_request untyped_request
     = \<lparr>content = ''Hello World !'', media_type = ''application/octet-stream'',
        content_type = ''application/octet-stream''\<rparr>"
  using test_route_default_media_type [of untyped_request]
  by (simp add: stub_simps)


section \<open>Admission control\<close>

text \<open>Facts on the controller: the first request of a client, a request inside the
  current window, a run of requests of one client inside one window, and the invariant
  that no counter passes the budget of its route.\<close>

lemma budget_positive: "0 < max_requests (route_budget r)"
  by (cases r) simp_all

lemma admission_same_window:
  assumes "st (r, client) = Some (k, s)" and "now < s + window_duration (route_budget r)"
  shows "admission_controller st r client now
           = (if k \<ge> max_requests (route_budget r) then (False, st((r, client) \<mapsto> (k, s)))
              else (True, st((r, client) \<mapsto> (k + 1, s))))"
  using assms by (simp add: admission_controller_def current_window_def)

lemma admission_first:
  assumes "st (r, client) = None"
  shows "admission_controller st r client now = (True, st((r, client) \<mapsto> (1, now)))"
  using assms budget_positive[of r]
  by (simp add: admission_controller_def current_window_def)

lemma admission_expired:
  assumes "st (r, client) = Some (k0, s0)" and "s0 + window_duration (route_budget r) \<le> now"
  shows "admission_controller st r client now = (True, st((r, client) \<mapsto> (1, now)))"
  using assms budget_positive[of r]
  by (simp add: admission_controller_def current_window_def)

lemma decisions_live_window:
  assumes "st (r, client) = Some (k, s)"
    and "\<forall>t \<in> set ts. t < s + window_duration (route_budget r)"
  shows "decisions st (map (\<lambda>t. (r, client, t)) ts)
           = replicate (min (length ts) (max_requests (route_budget r) - k)) True
             @ replicate (length ts - (max_requests (route_budget r) - k)) False"
  using assms
proof (induction ts arbitrary: st k)
  case Nil
  then show ?case by simp
next
  case (Cons t ts)
  let ?m = "max_requests (route_budget r)"
  let ?reqs = "map (\<lambda>t. (r, client, t)) ts"
  have tw: "t < s + window_duration (route_budget r)"
    and rest: "\<forall>t \<in> set ts. t < s + window_duration (route_budget r)"
    using Cons.prems(2) by simp_all
  show ?case
  proof (cases "k < ?m")
    case False
    then have keq: "?m - k = 0" by simp
    have step: "admission_controller st r client t = (False, st((r, client) \<mapsto> (k, s)))"
      using admission_same_window[of st r client k s t] Cons.prems(1) tw False by simp
    have "decisions (st((r, client) \<mapsto> (k, s))) ?reqs
            = replicate (min (length ts) (?m - k)) True @ replicate (length ts - (?m - k)) False"
      by (rule Cons.IH) (use rest in simp_all)
    then have ih: "decisions (st((r, client) \<mapsto> (k, s))) ?reqs = replicate (length ts) False"
      by (simp only: keq) simp
    have "decisions st (map (\<lambda>t. (r, client, t)) (t # ts)) = False # replicate (length ts) False"
      by (simp only: list.map decisions.simps step prod.case ih)
    then show ?thesis
      by (simp only: keq) simp
  next
    case True
    define d where "d = ?m - Suc k"
    have md: "?m - k = Suc d"
      using True unfolding d_def by arith
    have step: "admission_controller st r client t = (True, st((r, client) \<mapsto> (Suc k, s)))"
      using admission_same_window[of st r client k s t] Cons.prems(1) tw True by simp
    have "decisions (st((r, client) \<mapsto> (Suc k, s))) ?reqs
            = replicate (min (length ts) (?m - Suc k)) True
              @ replicate (length ts - (?m - Suc k)) False"
      by (rule Cons.IH) (use rest in simp_all)
    then have ih: "decisions (st((r, client) \<mapsto> (Suc k, s))) ?reqs
            = replicate (min (length ts) d) True @ replicate (length ts - d) False"
      by (simp only: d_def)
    have "decisions st (map (\<lambda>t. (r, client, t)) (t # ts))
            = True # (replicate (min (length ts) d) True @ replicate (length ts - d) False)"
      by (simp only: list.map decisions.simps step prod.case ih)
    then show ?thesis
      by (simp only: md) simp
  qed
qed

lemma decisions_new_window:
  assumes "st (r, client) = None \<or>
           (\<exists>k0 s0. st (r, client) = Some (k0, s0) \<and> s0 + window_duration (route_budget r) \<le> t0)"
    and "\<forall>t \<in> set ts. t < t0 + window_duration (route_budget r)"
  shows "decisions st (map (\<lambda>t. (r, client, t)) (t0 # ts))
           = replicate (min (Suc (length ts)) (max_requests (route_budget r))) True
             @ replicate (Suc (length ts) - max_requests (route_budget r)) False"
proof -
  let ?m = "max_requests (route_budget r)"
  define d where "d = ?m - 1"
  have md: "?m = Suc d"
    using budget_positive[of r] unfolding d_def by arith
  have step: "admission_controller st r client t0 = (True, st((r, client) \<mapsto> (1, t0)))"
    using assms(1) admission_first[of st r client t0] admission_expired[of st r client _ _ t0]
    by blast
  have "decisions (st((r, client) \<mapsto> (1, t0))) (map (\<lambda>t. (r, client, t)) ts)
          = replicate (min (length ts) (?m - 1)) True @ replicate (length ts - (?m - 1)) False"
    by (rule decisions_live_window) (use assms(2) in simp_all)
  then have rest: "decisions (st((r, client) \<mapsto> (1, t0))) (map (\<lambda>t. (r, client, t)) ts)
          = replicate (min (length ts) d) True @ replicate (length ts - d) False"
    by (simp only: d_def)
  have "decisions st (map (\<lambda>t. (r, client, t)) (t0 # ts))
          = True # (replicate (min (length ts) d) True @ replicate (length ts - d) False)"
    by (simp only: list.map decisions.simps step prod.case rest)
  then show ?thesis
    by (simp only: md) simp
qed

text \<open>The number of admitted requests in a run of decisions.\<close>

lemma admitted_count:
  "length (filter (\<lambda>ok. ok) (replicate a True @ replicate b False)) = a"
  by simp

text \<open>Requests of other clients and to other routes do not touch an entry, and the
  decisions on one client's requests depend on its entry alone.\<close>

lemma admission_other_key:
  assumes "(r', client') \<noteq> (r, client)"
  shows "snd (admission_controller st r' client' now) (r, client) = st (r, client)"
  using assms by (auto simp: admission_controller_def split: prod.splits)

lemma admission_depends_on_entry:
  assumes "st1 (r, client) = st2 (r, client)"
  shows "fst (admission_controller st1 r client now) = fst (admission_controller st2 r client now) \<and>
         snd (admission_controller st1 r client now) (r, client)
           = snd (admission_controller st2 r client now) (r, client)"
  using assms by (auto simp: admission_controller_def split: prod.splits)

lemma decisions_Cons:
  "decisions st ((r, client, now) # reqs)
     = fst (admission_controller st r client now)
       # decisions (snd (admission_controller st r client now)) reqs"
  by (simp add: case_prod_beta)

lemma outcomes_for_Cons:
  "outcomes_for r client st ((r', client', now) # reqs)
     = (if r' = r \<and> client' = client
        then fst (admission_controller st r' client' now)
             # outcomes_for r client (snd (admission_controller st r' client' now)) reqs
        else outcomes_for r client (snd (admission_controller st r' client' now)) reqs)"
  by (simp add: case_prod_beta)

lemma decisions_depend_on_entry:
  assumes "st1 (r, client) = st2 (r, client)"
  shows "decisions st1 (map (\<lambda>t. (r, client, t)) ts) = decisions st2 (map (\<lambda>t. (r, client, t)) ts)"
  using assms
proof (induction ts arbitrary: st1 st2)
  case Nil
  then show ?case by simp
next
  case (Cons t ts)
  have e: "fst (admission_controller st1 r client t) = fst (admission_controller st2 r client t)"
    and n: "snd (admission_controller st1 r client t) (r, client)
           = snd (admission_controller st2 r client t) (r, client)"
    using admission_depends_on_entry[of st1 r client st2 t] Cons.prems by simp_all
  have "decisions (snd (admission_controller st1 r client t)) (map (\<lambda>t. (r, client, t)) ts)
        = decisions (snd (admission_controller st2 r client t)) (map (\<lambda>t. (r, client, t)) ts)"
    using n by (rule Cons.IH)
  then show ?case
    using e by (simp add: decisions_Cons del: decisions.simps)
qed

lemma outcomes_for_own_requests:
  "outcomes_for r client st reqs = decisions st (map (\<lambda>t. (r, client, t)) (times_of r client reqs))"
proof (induction reqs arbitrary: st)
  case Nil
  then show ?case by simp
next
  case (Cons q reqs)
  obtain r' client' now where q: "q = (r', client', now)" by (cases q)
  let ?st' = "snd (admission_controller st r' client' now)"
  have ih: "outcomes_for r client ?st' reqs
      = decisions ?st' (map (\<lambda>t. (r, client, t)) (times_of r client reqs))"
    by (rule Cons.IH)
  show ?case
  proof (cases "r' = r \<and> client' = client")
    case True
    then show ?thesis
      unfolding q using ih
      by (simp add: outcomes_for_Cons decisions_Cons del: decisions.simps outcomes_for.simps)
  next
    case False
    then have "(r', client') \<noteq> (r, client)" by simp
    then have "?st' (r, client) = st (r, client)"
      by (rule admission_other_key)
    then have eq: "decisions ?st' (map (\<lambda>t. (r, client, t)) (times_of r client reqs))
        = decisions st (map (\<lambda>t. (r, client, t)) (times_of r client reqs))"
      by (rule decisions_depend_on_entry)
    have o: "outcomes_for r client st ((r', client', now) # reqs) = outcomes_for r client ?st' reqs"
      using False by (auto simp: outcomes_for_Cons simp del: outcomes_for.simps)
    have t: "times_of r client ((r', client', now) # reqs) = times_of r client reqs"
      using False by auto
    show ?thesis
      unfolding q by (simp only: o t ih eq)
  qed
qed

lemma current_window_bounded:
  assumes "\<forall>n s. entry = Some (n, s) \<longrightarrow> n \<le> m"
  shows "fst (current_window budget entry now) \<le> m"
  using assms by (auto simp: current_window_def split: option.splits)

lemma admission_keeps_budget:
  assumes "\<forall>r client n s. st (r, client) = Some (n, s) \<longrightarrow> n \<le> max_requests (route_budget r)"
  shows "\<forall>r client n s. snd (admission_controller st r0 c0 now) (r, client) = Some (n, s)
           \<longrightarrow> n \<le> max_requests (route_budget r)"
proof (intro allI impI)
  fix r client n s
  assume a: "snd (admission_controller st r0 c0 now) (r, client) = Some (n, s)"
  obtain k w where cw: "current_window (route_budget r0) (st (r0, c0)) now = (k, w)"
    by (cases "current_window (route_budget r0) (st (r0, c0)) now")
  have kb: "k \<le> max_requests (route_budget r0)"
    using current_window_bounded[of "st (r0, c0)" "max_requests (route_budget r0)" "route_budget r0" now]
      assms cw by simp
  show "n \<le> max_requests (route_budget r)"
  proof (cases "(r, client) = (r0, c0)")
    case True
    then show ?thesis
      using a cw kb by (auto simp: admission_controller_def split: if_splits)
  next
    case False
    then have "st (r, client) = Some (n, s)"
      using a cw by (auto simp: admission_controller_def split: if_splits)
    then show ?thesis using assms by blast
  qed
qed

lemma state_after_keeps_budget:
  assumes "\<forall>r client n s. st (r, client) = Some (n, s) \<longrightarrow> n \<le> max_requests (route_budget r)"
  shows "\<forall>r client n s. state_after st reqs (r, client) = Some (n, s)
           \<longrightarrow> n \<le> max_requests (route_budget r)"
  using assms
proof (induction reqs arbitrary: st)
  case Nil
  then show ?case by simp
next
  case (Cons q reqs)
  obtain r0 c0 now where q: "q = (r0, c0, now)" by (cases q)
  show ?case
    unfolding q state_after.simps
    by (rule Cons.IH) (rule admission_keeps_budget[OF Cons.prems])
qed

text \<open>
  C9. The budgets are 5 for \<^verbatim>\<open>/test\<close> and 2 for \<^verbatim>\<open>/predict\<close> and for \<^verbatim>\<open>/backup\<close>. After any
  trace of requests no counter exceeds the budget of its route. Take any state, any trace
  of requests of all clients to all routes, and one client and route. If the client has no
  entry, or its window has expired when its first request arrives, and its later requests
  fall before the end of the window that request opens, then exactly its first
  \<open>max_requests\<close> requests are admitted and every later one is rejected. If the client is
  inside a window with \<open>k\<close> requests counted and all its requests fall before the end of that
  window, exactly the first \<open>max_requests - k\<close> are admitted. In both cases the number of
  admitted requests stays within the budget, whatever the other clients send in between. A
  rejected request is answered with \<^verbatim>\<open>RateLimitExceeded\<close> whatever the collaborators would do,
  and an admitted one with the result of the route function.
\<close>

theorem budget_never_exceeded:
  "max_requests (route_budget Test) = 5 \<and>
   max_requests (route_budget Predict) = 2 \<and>
   max_requests (route_budget Backup) = 2 \<and>
   (\<forall>r' c n s. state_after Map.empty trace (r', c) = Some (n, s)
       \<longrightarrow> n \<le> max_requests (route_budget r')) \<and>
   (times_of r client reqs = t0 # ts \<and>
    (st (r, client) = None \<or>
     (\<exists>k0 s0. st (r, client) = Some (k0, s0) \<and> s0 + window_duration (route_budget r) \<le> t0)) \<and>
    (\<forall>t \<in> set ts. t < t0 + window_duration (route_budget r)) \<longrightarrow>
      outcomes_for r client st reqs
        = replicate (min (Suc (length ts)) (max_requests (route_budget r))) True
          @ replicate (Suc (length ts) - max_requests (route_budget r)) False \<and>
      length (filter (\<lambda>ok. ok) (outcomes_for r client st reqs)) \<le> max_requests (route_budget r)) \<and>
   (st (r, client) = Some (k, s) \<and>
    (\<forall>t \<in> set (times_of r client reqs). t < s + window_duration (route_budget r)) \<longrightarrow>
      outcomes_for r client st reqs
        = replicate (min (length (times_of r client reqs)) (max_requests (route_budget r) - k)) True
          @ replicate (length (times_of r client reqs) - (max_requests (route_budget r) - k)) False \<and>
      length (filter (\<lambda>ok. ok) (outcomes_for r client st reqs)) \<le> max_requests (route_budget r) - k) \<and>
   (admission_controller st Test (req_client request) now = (False, st') \<longrightarrow>
      post_test st now request = (RateLimitExceeded, st')) \<and>
   (admission_controller st Predict (req_client request) now = (False, st') \<longrightarrow>
      post_predict env st now request = (RateLimitExceeded, st')) \<and>
   (admission_controller st Backup (req_client request) now = (False, st') \<longrightarrow>
      post_backup env st now request = (RateLimitExceeded, st')) \<and>
   (admission_controller st Test (req_client request) now = (True, st') \<longrightarrow>
      post_test st now request = (Handled (check_request request), st')) \<and>
   (admission_controller st Predict (req_client request) now = (True, st') \<longrightarrow>
      post_predict env st now request = (Handled (analyze_drift env request), st')) \<and>
   (admission_controller st Backup (req_client request) now = (True, st') \<longrightarrow>
      post_backup env st now request = (Handled (backup_analysis env request), st'))"
proof -
  let ?m = "max_requests (route_budget r)"
  let ?w = "window_duration (route_budget r)"
  have budgets: "max_requests (route_budget Test) = 5 \<and>
      max_requests (route_budget Predict) = 2 \<and> max_requests (route_budget Backup) = 2"
    by simp
  have inv: "\<forall>r' c n s. state_after Map.empty trace (r', c) = Some (n, s)
       \<longrightarrow> n \<le> max_requests (route_budget r')"
    by (rule state_after_keeps_budget) simp
  have new: "outcomes_for r client st reqs
        = replicate (min (Suc (length ts)) ?m) True @ replicate (Suc (length ts) - ?m) False \<and>
      length (filter (\<lambda>ok. ok) (outcomes_for r client st reqs)) \<le> ?m"
    if a: "times_of r client reqs = t0 # ts \<and>
      (st (r, client) = None \<or>
       (\<exists>k0 s0. st (r, client) = Some (k0, s0) \<and> s0 + ?w \<le> t0)) \<and>
      (\<forall>t \<in> set ts. t < t0 + ?w)"
  proof -
    have "outcomes_for r client st reqs = decisions st (map (\<lambda>t. (r, client, t)) (t0 # ts))"
      using a by (simp only: outcomes_for_own_requests)
    also have "\<dots> = replicate (min (Suc (length ts)) ?m) True @ replicate (Suc (length ts) - ?m) False"
      by (rule decisions_new_window) (use a in blast)+
    finally have e: "outcomes_for r client st reqs
        = replicate (min (Suc (length ts)) ?m) True @ replicate (Suc (length ts) - ?m) False" .
    have "length (filter (\<lambda>ok. ok) (outcomes_for r client st reqs)) = min (Suc (length ts)) ?m"
      by (simp only: e admitted_count)
    then show ?thesis using e by simp
  qed
  have live: "outcomes_for r client st reqs
        = replicate (min (length (times_of r client reqs)) (?m - k)) True
          @ replicate (length (times_of r client reqs) - (?m - k)) False \<and>
      length (filter (\<lambda>ok. ok) (outcomes_for r client st reqs)) \<le> ?m - k"
    if a: "st (r, client) = Some (k, s) \<and> (\<forall>t \<in> set (times_of r client reqs). t < s + ?w)"
  proof -
    have "outcomes_for r client st reqs
            = decisions st (map (\<lambda>t. (r, client, t)) (times_of r client reqs))"
      by (rule outcomes_for_own_requests)
    also have "\<dots> = replicate (min (length (times_of r client reqs)) (?m - k)) True
          @ replicate (length (times_of r client reqs) - (?m - k)) False"
      by (rule decisions_live_window) (use a in blast)+
    finally have e: "outcomes_for r client st reqs
        = replicate (min (length (times_of r client reqs)) (?m - k)) True
          @ replicate (length (times_of r client reqs) - (?m - k)) False" .
    have "length (filter (\<lambda>ok. ok) (outcomes_for r client st reqs))
            = min (length (times_of r client reqs)) (?m - k)"
      by (simp only: e admitted_count)
    then show ?thesis using e by simp
  qed
  have routes: "(admission_controller st Test (req_client request) now = (False, st') \<longrightarrow>
      post_test st now request = (RateLimitExceeded, st')) \<and>
   (admission_controller st Predict (req_client request) now = (False, st') \<longrightarrow>
      post_predict env st now request = (RateLimitExceeded, st')) \<and>
   (admission_controller st Backup (req_client request) now = (False, st') \<longrightarrow>
      post_backup env st now request = (RateLimitExceeded, st')) \<and>
   (admission_controller st Test (req_client request) now = (True, st') \<longrightarrow>
      post_test st now request = (Handled (check_request request), st')) \<and>
   (admission_controller st Predict (req_client request) now = (True, st') \<longrightarrow>
      post_predict env st now request = (Handled (analyze_drift env request), st')) \<and>
   (admission_controller st Backup (req_client request) now = (True, st') \<longrightarrow>
      post_backup env st now request = (Handled (backup_analysis env request), st'))"
    by (simp add: post_test_def post_predict_def post_backup_def limited_def)
  from budgets inv new live routes show ?thesis by blast
qed

theorem budget_never_exceeded_witness:
  "times_of Predict ''127.0.0.1'' mixed_trace = [60, 70, 119] \<and>
   busy_state (Predict, ''127.0.0.1'') = Some (2, 0) \<and>
   (0::nat) + window_duration (route_budget Predict) \<le> 60 \<and>
   (70::nat) < 60 + window_duration (route_budget Predict) \<and>
   (119::nat) < 60 + window_duration (route_budget Predict) \<and>
   outcomes_for Predict ''127.0.0.1'' busy_state mixed_trace = [True, True, False]"
proof -
  have t: "times_of Predict ''127.0.0.1'' mixed_trace = [60, 70, 119]"
    by (simp add: mixed_trace_def)
  have e: "busy_state (Predict, ''127.0.0.1'') = Some (2, 0)"
    by (simp add: busy_state_def)
  have h: "times_of Predict ''127.0.0.1'' mixed_trace = 60 # [70, 119] \<and>
      (busy_state (Predict, ''127.0.0.1'') = None \<or>
       (\<exists>k0 s0. busy_state (Predict, ''127.0.0.1'') = Some (k0, s0) \<and>
          s0 + window_duration (route_budget Predict) \<le> 60)) \<and>
      (\<forall>t \<in> set [70, 119]. t < (60::nat) + window_duration (route_budget Predict))"
    using t e by simp
  have "outcomes_for Predict ''127.0.0.1'' busy_state mixed_trace
        = replicate (min (Suc (length [70, 119::nat])) (max_requests (route_budget Predict))) True
          @ replicate (Suc (length [70, 119::nat]) - max_requests (route_budget Predict)) False"
    using budget_never_exceeded [where r = Predict and client = "''127.0.0.1''"
        and reqs = mixed_trace and ?t0.0 = 60 and ts = "[70, 119]" and st = busy_state] h
    by blast
  then show ?thesis
    using t e by (simp add: numeral_2_eq_2)
qed

end
